theory Spec2Isabelle
  imports Complex_Main
begin

section \<open>Go error values\<close>

text \<open>
  The classifier of \<^verbatim>\<open>retry/retry.go\<close> inspects an error through \<^verbatim>\<open>errors.Is\<close> and
  \<^verbatim>\<open>errors.As\<close>, which walk the chain obtained by calling \<^verbatim>\<open>Unwrap\<close> repeatedly. An error
  value is modelled by the kinds of value the classifier tells apart:

  \<^item> \<open>Canceled\<close>: the sentinel \<^verbatim>\<open>context.Canceled\<close>;
  \<^item> \<open>DeadlineExceeded\<close>: the sentinel \<^verbatim>\<open>context.DeadlineExceeded\<close>, whose type has the
    methods \<^verbatim>\<open>Timeout()\<close> and \<^verbatim>\<open>Temporary()\<close>, both returning true;
  \<^item> \<open>ErrorString s\<close>: \<^verbatim>\<open>errors.New(s)\<close>, an error with a message and nothing else;
  \<^item> \<open>Errno n\<close>: a \<^verbatim>\<open>syscall.Errno\<close>, which has the methods \<^verbatim>\<open>Timeout()\<close> and
    \<^verbatim>\<open>Temporary()\<close> too;
  \<^item> \<open>NetErr tmp tmo u\<close>: a value of any other type with the methods of \<^verbatim>\<open>net.Error\<close>,
    \<open>tmp\<close> and \<open>tmo\<close> being what \<^verbatim>\<open>Temporary()\<close> and \<^verbatim>\<open>Timeout()\<close> return and \<open>u\<close>
    what \<^verbatim>\<open>Unwrap()\<close> returns, if the type has it;
  \<^item> \<open>RetryableError u\<close>: the repository's \<^verbatim>\<open>RetryableError{Err: u}\<close>;
  \<^item> \<open>WrapError p e\<close>: the value of \<^verbatim>\<open>fmt.Errorf(p + "%w", e)\<close> for a non-nil \<open>e\<close>: its
    message is \<open>p\<close> followed by the message of \<open>e\<close>, and \<^verbatim>\<open>Unwrap\<close> returns \<open>e\<close>.

  A nil error is \<open>None\<close> of type \<open>goerror option\<close>. Error types with \<^verbatim>\<open>Is\<close> or \<^verbatim>\<open>As\<close>
  methods of their own, and errors that unwrap to several errors, are outside the model.
\<close>

datatype goerror =
    Canceled
  | DeadlineExceeded
  | ErrorString string
  | Errno nat
  | NetErr bool bool "goerror option"
  | RetryableError "goerror option"
  | WrapError string goerror

text \<open>\<^verbatim>\<open>Unwrap\<close>: \<^verbatim>\<open>func (e RetryableError) Unwrap() error { return e.Err }\<close>, and the same
  for the library's wrappers.\<close>

fun Unwrap :: "goerror \<Rightarrow> goerror option" where
  "Unwrap (RetryableError u) = u"
| "Unwrap (NetErr tmp tmo u) = u"
| "Unwrap (WrapError p e) = Some e"
| "Unwrap Canceled = None"
| "Unwrap DeadlineExceeded = None"
| "Unwrap (ErrorString s) = None"
| "Unwrap (Errno n) = None"

text \<open>The chain that \<^verbatim>\<open>errors.Is\<close> and \<^verbatim>\<open>errors.As\<close> visit: the error, what it unwraps to,
  and so on, outermost first.\<close>

fun chain :: "goerror \<Rightarrow> goerror list" where
  "chain (RetryableError (Some e)) = RetryableError (Some e) # chain e"
| "chain (RetryableError None) = [RetryableError None]"
| "chain (NetErr tmp tmo (Some e)) = NetErr tmp tmo (Some e) # chain e"
| "chain (NetErr tmp tmo None) = [NetErr tmp tmo None]"
| "chain (WrapError p e) = WrapError p e # chain e"
| "chain Canceled = [Canceled]"
| "chain DeadlineExceeded = [DeadlineExceeded]"
| "chain (ErrorString s) = [ErrorString s]"
| "chain (Errno n) = [Errno n]"

text \<open>\<^verbatim>\<open>errors.Is(err, target)\<close>: some error of the chain equals the target. The targets
  used by the classifier are sentinels and error numbers, which Go compares by value.\<close>

definition errors_Is :: "goerror \<Rightarrow> goerror \<Rightarrow> bool" where
  "errors_Is err target = (target \<in> set (chain err))"

text \<open>\<^verbatim>\<open>errors.As(err, &target)\<close>: the first error of the chain whose type can be assigned
  to the target's type. The three target types of the classifier are \<^verbatim>\<open>RetryableError\<close>, the
  interface \<^verbatim>\<open>net.Error\<close> (any type with \<^verbatim>\<open>Error\<close>, \<^verbatim>\<open>Timeout\<close> and \<^verbatim>\<open>Temporary\<close>) and
  \<^verbatim>\<open>syscall.Errno\<close>.\<close>

fun is_RetryableError :: "goerror \<Rightarrow> bool" where
  "is_RetryableError (RetryableError u) = True"
| "is_RetryableError e = False"

fun is_net_Error :: "goerror \<Rightarrow> bool" where
  "is_net_Error DeadlineExceeded = True"
| "is_net_Error (Errno n) = True"
| "is_net_Error (NetErr tmp tmo u) = True"
| "is_net_Error e = False"

fun is_Errno :: "goerror \<Rightarrow> bool" where
  "is_Errno (Errno n) = True"
| "is_Errno e = False"

definition errors_As :: "(goerror \<Rightarrow> bool) \<Rightarrow> goerror \<Rightarrow> goerror option" where
  "errors_As has_type err = List.find has_type (chain err)"

text \<open>The error numbers the library's methods and the classifier name (Linux values).\<close>

definition EINTR :: nat where "EINTR = 4"
definition EAGAIN :: nat where "EAGAIN = 11"
definition EWOULDBLOCK :: nat where "EWOULDBLOCK = 11"
definition ENFILE :: nat where "ENFILE = 23"
definition EMFILE :: nat where "EMFILE = 24"
definition ECONNRESET :: nat where "ECONNRESET = 104"
definition ETIMEDOUT :: nat where "ETIMEDOUT = 110"
definition ECONNREFUSED :: nat where "ECONNREFUSED = 111"

text \<open>The methods \<^verbatim>\<open>Timeout()\<close> and \<^verbatim>\<open>Temporary()\<close> of the types that have them.\<close>

fun Timeout :: "goerror \<Rightarrow> bool" where
  "Timeout DeadlineExceeded = True"
| "Timeout (Errno n) = (n = EAGAIN \<or> n = EWOULDBLOCK \<or> n = ETIMEDOUT)"
| "Timeout (NetErr tmp tmo u) = tmo"
| "Timeout e = False"

fun Temporary :: "goerror \<Rightarrow> bool" where
  "Temporary DeadlineExceeded = True"
| "Temporary (Errno n) = (n = EINTR \<or> n = EMFILE \<or> n = ENFILE \<or> Timeout (Errno n))"
| "Temporary (NetErr tmp tmo u) = tmp"
| "Temporary e = False"

section \<open>The error classifier\<close>

text \<open>
  \<^verbatim>\<open>func IsRetryable(err error) bool\<close>, branch by branch in the order of the source: the
  cancellation test, the explicit marker, the \<^verbatim>\<open>net.Error\<close> test, the error-number test,
  and \<^verbatim>\<open>false\<close> for everything else.
\<close>

definition IsRetryable :: "goerror \<Rightarrow> bool" where
  "IsRetryable err =
     (if errors_Is err Canceled then False
      else if errors_As is_RetryableError err \<noteq> None then True
      else case errors_As is_net_Error err of
             Some netErr \<Rightarrow> Temporary netErr \<or> Timeout netErr
           | None \<Rightarrow>
               (case errors_As is_Errno err of
                  Some syscallErr \<Rightarrow>
                    errors_Is syscallErr (Errno ECONNREFUSED) \<or>
                    errors_Is syscallErr (Errno ECONNRESET)
                | None \<Rightarrow> False))"

section \<open>The retry executor\<close>

text \<open>
  \<^verbatim>\<open>type Config struct\<close>. \<^verbatim>\<open>MaxRetries\<close> is a Go \<^verbatim>\<open>int\<close>, the two durations are
  \<^verbatim>\<open>time.Duration\<close> (a count of nanoseconds). The two \<^verbatim>\<open>float64\<close> fields are read by
  \<^verbatim>\<open>calculateBackoff\<close> only; the executor passes the record on, so their type is a parameter.
\<close>

record 'f Config =
  MaxRetries :: int
  InitialBackoff :: int
  MaxBackoff :: int
  BackoffFactor :: 'f
  JitterFactor :: 'f

text \<open>
  \<^verbatim>\<open>fmt.Errorf(p + "%w", lastErr)\<close>. With a non-nil operand the result wraps it. With a nil
  operand (\<^verbatim>\<open>lastErr\<close> is still nil when the loop body never ran, that is when
  \<^verbatim>\<open>MaxRetries\<close> is zero or negative) there is no error to wrap: the result unwraps to
  nothing and its message is \<open>p\<close> followed by \<^verbatim>\<open>%!w(<nil>)\<close>.
\<close>

definition fmt_Errorf :: "string \<Rightarrow> goerror option \<Rightarrow> goerror" where
  "fmt_Errorf p lastErr =
     (case lastErr of
        Some e \<Rightarrow> WrapError p e
      | None \<Rightarrow> ErrorString (p @ ''%!w(<nil>)''))"

text \<open>
  What a run does, in order:
  \<^item> \<open>Invoke r\<close>: a call of \<^verbatim>\<open>operation()\<close>, which returned \<open>r\<close>;
  \<^item> \<open>Printf attempt maxRetries err\<close>: the call
    \<^verbatim>\<open>fmt.Printf("Attempt %d/%d: %v\n", attempt, config.MaxRetries, lastErr)\<close>, a line written
    to standard output;
  \<^item> \<open>CalcBackoff attempt\<close>: a call of \<^verbatim>\<open>calculateBackoff(attempt, config)\<close>;
  \<^item> \<open>Notify err d\<close>: a call of \<^verbatim>\<open>notify(lastErr, backoff)\<close>;
  \<^item> \<open>Wait d\<close>: the \<^verbatim>\<open>select\<close> on \<^verbatim>\<open>time.After(d)\<close> and \<^verbatim>\<open>ctx.Done()\<close>.
\<close>

datatype event =
    Invoke "goerror option"
  | Printf nat int goerror
  | CalcBackoff nat
  | Notify goerror int
  | Wait int

text \<open>
  The loop of \<^verbatim>\<open>Do\<close>, \<^verbatim>\<open>for attempt := 0; attempt < config.MaxRetries; attempt++\<close>, from the
  state \<open>(attempt, lastErr)\<close>. The surroundings of a run are parameters:
  \<^item> \<open>operation k\<close> is what the call of \<^verbatim>\<open>operation()\<close> made in iteration \<open>k\<close> returns (the
    operation is a closure, so its results form a sequence);
  \<^item> \<open>ctxDone k\<close> says that in the \<^verbatim>\<open>select\<close> of iteration \<open>k\<close> the case \<^verbatim>\<open><-ctx.Done()\<close>
    is taken, rather than \<^verbatim>\<open><-time.After(backOff)\<close>;
  \<^item> \<open>calc k config\<close> is what \<^verbatim>\<open>calculateBackoff(k, config)\<close> returns in this run. It is
    \<^verbatim>\<open>float64\<close> arithmetic on a draw from the global random source, and the executor only
    passes its result on.

  The result is the returned error (\<open>None\<close> for nil) and the events of the run.
\<close>

function Do_loop ::
  "(nat \<Rightarrow> 'f Config \<Rightarrow> int) \<Rightarrow> (nat \<Rightarrow> bool) \<Rightarrow> 'f Config \<Rightarrow> (nat \<Rightarrow> goerror option) \<Rightarrow>
   nat \<Rightarrow> goerror option \<Rightarrow> goerror option \<times> event list" where
  "Do_loop calc ctxDone config operation attempt lastErr =
     (if int attempt < MaxRetries config then
        (case operation attempt of
           None \<Rightarrow> (None, [Invoke None])
         | Some err \<Rightarrow>
             if \<not> IsRetryable err then
               (Some (fmt_Errorf ''not retryable error: '' (Some err)),
                [Invoke (Some err), Printf attempt (MaxRetries config) err])
             else if int attempt = MaxRetries config then
               (Some (fmt_Errorf ''retries exceeded: '' (Some err)),
                [Invoke (Some err), Printf attempt (MaxRetries config) err])
             else
               (let backOff = calc attempt config in
                if ctxDone attempt then
                  (Some (fmt_Errorf ''timed out: '' (Some err)),
                   [Invoke (Some err), Printf attempt (MaxRetries config) err,
                    CalcBackoff attempt, Wait backOff])
                else
                  (case Do_loop calc ctxDone config operation (Suc attempt) (Some err) of
                     (r, tr) \<Rightarrow>
                       (r, [Invoke (Some err), Printf attempt (MaxRetries config) err,
                            CalcBackoff attempt, Wait backOff] @ tr))))
      else (Some (fmt_Errorf ''retries exceeded: '' lastErr), []))"
  by pat_completeness auto
termination
  by (relation "measure (\<lambda>(calc, ctxDone, config, operation, attempt, lastErr).
        nat (MaxRetries config - int attempt))") auto

declare Do_loop.simps [simp del]

definition Do ::
  "(nat \<Rightarrow> 'f Config \<Rightarrow> int) \<Rightarrow> (nat \<Rightarrow> bool) \<Rightarrow> 'f Config \<Rightarrow> (nat \<Rightarrow> goerror option) \<Rightarrow>
   goerror option \<times> event list" where
  "Do calc ctxDone config operation = Do_loop calc ctxDone config operation 0 None"

text \<open>
  The loop of \<^verbatim>\<open>DoWithNotify\<close>. \<open>notify\<close> says whether the callback is non-nil; calling it
  is the event \<open>Notify\<close>.
\<close>

function DoWithNotify_loop ::
  "(nat \<Rightarrow> 'f Config \<Rightarrow> int) \<Rightarrow> (nat \<Rightarrow> bool) \<Rightarrow> 'f Config \<Rightarrow> (nat \<Rightarrow> goerror option) \<Rightarrow>
   bool \<Rightarrow> nat \<Rightarrow> goerror option \<Rightarrow> goerror option \<times> event list" where
  "DoWithNotify_loop calc ctxDone config operation notify attempt lastErr =
     (if int attempt < MaxRetries config then
        (case operation attempt of
           None \<Rightarrow> (None, [Invoke None])
         | Some err \<Rightarrow>
             if \<not> IsRetryable err then
               (Some (fmt_Errorf ''not retryable error: '' (Some err)), [Invoke (Some err)])
             else if int attempt = MaxRetries config then
               (Some (fmt_Errorf ''retries exceeded: '' (Some err)), [Invoke (Some err)])
             else
               (let backoff = calc attempt config;
                    called = (if notify then [Notify err backoff] else []) in
                if ctxDone attempt then
                  (Some (fmt_Errorf ''timed out: '' (Some err)),
                   [Invoke (Some err), CalcBackoff attempt] @ called @ [Wait backoff])
                else
                  (case DoWithNotify_loop calc ctxDone config operation notify
                          (Suc attempt) (Some err) of
                     (r, tr) \<Rightarrow>
                       (r, [Invoke (Some err), CalcBackoff attempt] @ called @
                           [Wait backoff] @ tr))))
      else (Some (fmt_Errorf ''retries exceeded: '' lastErr), []))"
  by pat_completeness auto
termination
  by (relation "measure (\<lambda>(calc, ctxDone, config, operation, notify, attempt, lastErr).
        nat (MaxRetries config - int attempt))") auto

declare DoWithNotify_loop.simps [simp del]

definition DoWithNotify ::
  "(nat \<Rightarrow> 'f Config \<Rightarrow> int) \<Rightarrow> (nat \<Rightarrow> bool) \<Rightarrow> 'f Config \<Rightarrow> (nat \<Rightarrow> goerror option) \<Rightarrow>
   bool \<Rightarrow> goerror option \<times> event list" where
  "DoWithNotify calc ctxDone config operation notify =
     DoWithNotify_loop calc ctxDone config operation notify 0 None"

text \<open>The number of times a run called the operation, and the lines it printed.\<close>

fun is_Invoke :: "event \<Rightarrow> bool" where
  "is_Invoke (Invoke r) = True"
| "is_Invoke ev = False"

fun is_failed_Invoke :: "event \<Rightarrow> bool" where
  "is_failed_Invoke (Invoke (Some e)) = True"
| "is_failed_Invoke ev = False"

fun is_Printf :: "event \<Rightarrow> bool" where
  "is_Printf (Printf a m e) = True"
| "is_Printf ev = False"

fun is_Notify :: "event \<Rightarrow> bool" where
  "is_Notify (Notify e d) = True"
| "is_Notify ev = False"

definition invocations :: "event list \<Rightarrow> nat" where
  "invocations tr = length (filter is_Invoke tr)"

section \<open>Telling the terminal failures apart\<close>




section \<open>The runs of the repository's tests\<close>

text \<open>
  The configuration and the operation of \<^verbatim>\<open>TestRetryMaxAttemptsExceeded\<close>: two attempts,
  and an operation that returns \<^verbatim>\<open>RetryableError{Err: errors.New("always fails")}\<close> on every
  call. Durations are in nanoseconds.
\<close>

definition test_config :: "rat Config" where
  "test_config =
     \<lparr>MaxRetries = 2, InitialBackoff = 10000000, MaxBackoff = 50000000,
      BackoffFactor = 2, JitterFactor = 1 / 10\<rparr>"

definition always_fails :: "nat \<Rightarrow> goerror option" where
  "always_fails = (\<lambda>k. Some (RetryableError (Some (ErrorString ''always fails''))))"

text \<open>An operation that returns \<^verbatim>\<open>errors.New("fatal")\<close>, which carries no marker.\<close>

definition fails_fatally :: "nat \<Rightarrow> goerror option" where
  "fails_fatally = (\<lambda>k. Some (ErrorString ''fatal''))"

text \<open>A context that is never cancelled (\<^verbatim>\<open>context.Background()\<close>).\<close>

definition background :: "nat \<Rightarrow> bool" where
  "background = (\<lambda>k. False)"

text \<open>A context that is cancelled before the first wait, and one that is cancelled during
  the wait that follows the second attempt (as in \<^verbatim>\<open>TestRetryWithContextCancel\<close>, whose
  operation cancels the context in its second call).\<close>

definition cancelled :: "nat \<Rightarrow> bool" where
  "cancelled = (\<lambda>k. True)"

definition cancelled_in_second_wait :: "nat \<Rightarrow> bool" where
  "cancelled_in_second_wait = (\<lambda>k. k = 1)"

text \<open>Values of \<^verbatim>\<open>calculateBackoff\<close> for the runs below, which the executor does not look at:
  the initial wait at every attempt.\<close>

definition initial_wait :: "nat \<Rightarrow> 'f Config \<Rightarrow> int" where
  "initial_wait = (\<lambda>attempt config. InitialBackoff config)"

section \<open>Properties of the classifier\<close>

text \<open>The chain is the error followed by the chain of what it unwraps to.\<close>

lemma chain_Unwrap:
  "chain e = e # (case Unwrap e of None \<Rightarrow> [] | Some e' \<Rightarrow> chain e')"
  by (induction e rule: chain.induct) simp_all

text \<open>An error that wraps an error with the target in its chain has it in its own.\<close>

lemma errors_Is_wrapped:
  assumes "errors_Is e target"
  shows "errors_Is (RetryableError (Some e)) target"
    and "errors_Is (NetErr tmp tmo (Some e)) target"
    and "errors_Is (WrapError p e) target"
  using assms by (simp_all add: errors_Is_def)

text \<open>
  Claim C1, as the code has it. The first test of \<^verbatim>\<open>IsRetryable\<close> is
  \<^verbatim>\<open>errors.Is(err, context.Canceled)\<close>: every error that is \<^verbatim>\<open>context.Canceled\<close> or has it
  anywhere in its unwrap chain is classified not retryable, whatever the later rules (the
  explicit marker, the temporary and timeout rule, the error-number rule) would say of it;
  so is such an error put under the explicit marker, inside a network error of any
  \<^verbatim>\<open>Temporary()\<close> and \<^verbatim>\<open>Timeout()\<close>, or inside \<^verbatim>\<open>fmt.Errorf\<close>.
\<close>

theorem IsRetryable_Canceled_first:
  assumes "errors_Is err Canceled"
  shows "IsRetryable err = False
         \<and> IsRetryable (RetryableError (Some err)) = False
         \<and> IsRetryable (NetErr tmp tmo (Some err)) = False
         \<and> IsRetryable (WrapError p err) = False"
proof -
  have first: "IsRetryable e = False" if "errors_Is e Canceled" for e
    using that by (simp add: IsRetryable_def)
  from assms errors_Is_wrapped [of err Canceled] show ?thesis
    by (simp add: first)
qed

text \<open>The rule at an error that carries the explicit marker around a temporary network
  error around \<^verbatim>\<open>context.Canceled\<close>: both later rules would have answered true.\<close>

theorem IsRetryable_Canceled_first_witness:
  "errors_Is (RetryableError (Some (NetErr True True (Some Canceled)))) Canceled
   \<and> errors_As is_RetryableError (RetryableError (Some (NetErr True True (Some Canceled)))) \<noteq> None
   \<and> IsRetryable (RetryableError (Some (NetErr True True (Some Canceled)))) = False"
proof -
  have h: "errors_Is (RetryableError (Some (NetErr True True (Some Canceled)))) Canceled"
    by (simp add: errors_Is_def)
  have m: "errors_As is_RetryableError (RetryableError (Some (NetErr True True (Some Canceled)))) \<noteq> None"
    by (simp add: errors_As_def)
  from h m IsRetryable_Canceled_first [OF h, of True True "[]"] show ?thesis by simp
qed

text \<open>
  Claim C1, as the specification states it, asks the same of deadline expiry. The code does
  not test for \<^verbatim>\<open>context.DeadlineExceeded\<close>: an error that is it, or wraps it under the
  explicit marker, is classified retryable.
\<close>

theorem IsRetryable_DeadlineExceeded_counterexample:
  "errors_Is (RetryableError (Some DeadlineExceeded)) DeadlineExceeded
   \<and> IsRetryable (RetryableError (Some DeadlineExceeded)) = True
   \<and> errors_Is DeadlineExceeded DeadlineExceeded
   \<and> IsRetryable DeadlineExceeded = True"
  by (simp add: IsRetryable_def errors_Is_def errors_As_def)

section \<open>Properties of the executor\<close>

subsection \<open>Counting and unfolding\<close>

lemma invocations_Nil: "invocations [] = 0"
  by (simp add: invocations_def)

lemma invocations_Cons:
  "invocations (ev # tr) = (if is_Invoke ev then 1 else 0) + invocations tr"
  by (simp add: invocations_def)

lemma Do_loop_done:
  "\<not> int attempt < MaxRetries config \<Longrightarrow>
   Do_loop calc ctxDone config operation attempt lastErr =
     (Some (fmt_Errorf ''retries exceeded: '' lastErr), [])"
  by (simp add: Do_loop.simps)

lemma Do_loop_success:
  "int attempt < MaxRetries config \<Longrightarrow> operation attempt = None \<Longrightarrow>
   Do_loop calc ctxDone config operation attempt lastErr = (None, [Invoke None])"
  by (simp add: Do_loop.simps)

lemma Do_loop_not_retryable:
  "int attempt < MaxRetries config \<Longrightarrow> operation attempt = Some err \<Longrightarrow> \<not> IsRetryable err \<Longrightarrow>
   Do_loop calc ctxDone config operation attempt lastErr =
     (Some (WrapError ''not retryable error: '' err),
      [Invoke (Some err), Printf attempt (MaxRetries config) err])"
  by (simp add: Do_loop.simps fmt_Errorf_def)

lemma Do_loop_cancelled:
  "int attempt < MaxRetries config \<Longrightarrow> operation attempt = Some err \<Longrightarrow> IsRetryable err \<Longrightarrow>
   ctxDone attempt \<Longrightarrow>
   Do_loop calc ctxDone config operation attempt lastErr =
     (Some (WrapError ''timed out: '' err),
      [Invoke (Some err), Printf attempt (MaxRetries config) err,
       CalcBackoff attempt, Wait (calc attempt config)])"
  by (simp add: Do_loop.simps fmt_Errorf_def)

lemma Do_loop_retry:
  "int attempt < MaxRetries config \<Longrightarrow> operation attempt = Some err \<Longrightarrow> IsRetryable err \<Longrightarrow>
   \<not> ctxDone attempt \<Longrightarrow>
   Do_loop calc ctxDone config operation attempt lastErr =
     (fst (Do_loop calc ctxDone config operation (Suc attempt) (Some err)),
      [Invoke (Some err), Printf attempt (MaxRetries config) err,
       CalcBackoff attempt, Wait (calc attempt config)] @
      snd (Do_loop calc ctxDone config operation (Suc attempt) (Some err)))"
  by (subst Do_loop.simps) (simp add: split_beta)

lemma DoWithNotify_loop_done:
  "\<not> int attempt < MaxRetries config \<Longrightarrow>
   DoWithNotify_loop calc ctxDone config operation notify attempt lastErr =
     (Some (fmt_Errorf ''retries exceeded: '' lastErr), [])"
  by (simp add: DoWithNotify_loop.simps)

lemma DoWithNotify_loop_success:
  "int attempt < MaxRetries config \<Longrightarrow> operation attempt = None \<Longrightarrow>
   DoWithNotify_loop calc ctxDone config operation notify attempt lastErr =
     (None, [Invoke None])"
  by (simp add: DoWithNotify_loop.simps)

lemma DoWithNotify_loop_not_retryable:
  "int attempt < MaxRetries config \<Longrightarrow> operation attempt = Some err \<Longrightarrow> \<not> IsRetryable err \<Longrightarrow>
   DoWithNotify_loop calc ctxDone config operation notify attempt lastErr =
     (Some (WrapError ''not retryable error: '' err), [Invoke (Some err)])"
  by (simp add: DoWithNotify_loop.simps fmt_Errorf_def)

lemma DoWithNotify_loop_cancelled:
  "int attempt < MaxRetries config \<Longrightarrow> operation attempt = Some err \<Longrightarrow> IsRetryable err \<Longrightarrow>
   ctxDone attempt \<Longrightarrow>
   DoWithNotify_loop calc ctxDone config operation notify attempt lastErr =
     (Some (WrapError ''timed out: '' err),
      [Invoke (Some err), CalcBackoff attempt] @
      (if notify then [Notify err (calc attempt config)] else []) @
      [Wait (calc attempt config)])"
  by (simp add: DoWithNotify_loop.simps fmt_Errorf_def Let_def)

lemma DoWithNotify_loop_retry:
  "int attempt < MaxRetries config \<Longrightarrow> operation attempt = Some err \<Longrightarrow> IsRetryable err \<Longrightarrow>
   \<not> ctxDone attempt \<Longrightarrow>
   DoWithNotify_loop calc ctxDone config operation notify attempt lastErr =
     (fst (DoWithNotify_loop calc ctxDone config operation notify (Suc attempt) (Some err)),
      [Invoke (Some err), CalcBackoff attempt] @
      (if notify then [Notify err (calc attempt config)] else []) @
      [Wait (calc attempt config)] @
      snd (DoWithNotify_loop calc ctxDone config operation notify (Suc attempt) (Some err)))"
  by (subst DoWithNotify_loop.simps) (simp add: split_beta Let_def)

text \<open>The five ways through one iteration, as a case rule.\<close>

lemma iteration_cases [case_names finished success not_retryable cancelled retry]:
  assumes "\<not> int attempt < MaxRetries config \<Longrightarrow> P"
    and "int attempt < MaxRetries config \<Longrightarrow> operation attempt = None \<Longrightarrow> P"
    and "\<And>err. int attempt < MaxRetries config \<Longrightarrow> operation attempt = Some err \<Longrightarrow>
           \<not> IsRetryable err \<Longrightarrow> P"
    and "\<And>err. int attempt < MaxRetries config \<Longrightarrow> operation attempt = Some err \<Longrightarrow>
           IsRetryable err \<Longrightarrow> ctxDone attempt \<Longrightarrow> P"
    and "\<And>err. int attempt < MaxRetries config \<Longrightarrow> operation attempt = Some err \<Longrightarrow>
           IsRetryable err \<Longrightarrow> \<not> ctxDone attempt \<Longrightarrow> P"
  shows P
  using assms by (cases "operation attempt") blast+

text \<open>Induction along the loop: the only recursive call is the retry.\<close>

lemma loop_induct [case_names finished success not_retryable cancelled retry]:
  assumes "\<And>attempt lastErr. \<not> int attempt < MaxRetries config \<Longrightarrow> P attempt lastErr"
    and "\<And>attempt lastErr. int attempt < MaxRetries config \<Longrightarrow> operation attempt = None \<Longrightarrow>
           P attempt lastErr"
    and "\<And>attempt lastErr err. int attempt < MaxRetries config \<Longrightarrow>
           operation attempt = Some err \<Longrightarrow> \<not> IsRetryable err \<Longrightarrow> P attempt lastErr"
    and "\<And>attempt lastErr err. int attempt < MaxRetries config \<Longrightarrow>
           operation attempt = Some err \<Longrightarrow> IsRetryable err \<Longrightarrow> ctxDone attempt \<Longrightarrow>
           P attempt lastErr"
    and "\<And>attempt lastErr err. int attempt < MaxRetries config \<Longrightarrow>
           operation attempt = Some err \<Longrightarrow> IsRetryable err \<Longrightarrow> \<not> ctxDone attempt \<Longrightarrow>
           P (Suc attempt) (Some err) \<Longrightarrow> P attempt lastErr"
  shows "P attempt lastErr"
proof (induction "nat (MaxRetries config - int attempt)" arbitrary: attempt lastErr)
  case 0
  then have "\<not> int attempt < MaxRetries config" by simp
  then show ?case by (rule assms(1))
next
  case (Suc n)
  then have lt: "int attempt < MaxRetries config" by linarith
  from Suc(2) have n: "n = nat (MaxRetries config - int (Suc attempt))" by simp
  show ?case
  proof (cases rule: iteration_cases
        [where attempt = attempt and config = config and operation = operation
           and ctxDone = ctxDone])
    case finished
    with lt show ?thesis by simp
  next
    case success
    then show ?thesis by (rule assms(2))
  next
    case (not_retryable err)
    then show ?thesis by (rule assms(3))
  next
    case (cancelled err)
    then show ?thesis by (rule assms(4))
  next
    case (retry err)
    from Suc(1) [OF n] have "P (Suc attempt) (Some err)" .
    with retry show ?thesis by (rule assms(5))
  qed
qed

subsection \<open>The two loops side by side\<close>

lemma DoWithNotify_loop_result:
  "fst (DoWithNotify_loop calc ctxDone config operation notify attempt lastErr)
     = fst (Do_loop calc ctxDone config operation attempt lastErr)"
proof (induction attempt lastErr
    rule: loop_induct [where config = config and operation = operation and ctxDone = ctxDone])
  case (finished attempt lastErr)
  then show ?case by (simp add: Do_loop_done DoWithNotify_loop_done)
next
  case (success attempt lastErr)
  then show ?case by (simp add: Do_loop_success DoWithNotify_loop_success)
next
  case (not_retryable attempt lastErr err)
  then show ?case by (simp add: Do_loop_not_retryable DoWithNotify_loop_not_retryable)
next
  case (cancelled attempt lastErr err)
  then show ?case by (simp add: Do_loop_cancelled DoWithNotify_loop_cancelled)
next
  case (retry attempt lastErr err)
  then show ?case by (simp add: Do_loop_retry DoWithNotify_loop_retry)
qed

lemma DoWithNotify_loop_events:
  "filter (\<lambda>ev. \<not> is_Notify ev)
      (snd (DoWithNotify_loop calc ctxDone config operation notify attempt lastErr))
     = filter (\<lambda>ev. \<not> is_Printf ev)
         (snd (Do_loop calc ctxDone config operation attempt lastErr))"
proof (induction attempt lastErr
    rule: loop_induct [where config = config and operation = operation and ctxDone = ctxDone])
  case (finished attempt lastErr)
  then show ?case by (simp add: Do_loop_done DoWithNotify_loop_done)
next
  case (success attempt lastErr)
  then show ?case by (simp add: Do_loop_success DoWithNotify_loop_success)
next
  case (not_retryable attempt lastErr err)
  then show ?case by (simp add: Do_loop_not_retryable DoWithNotify_loop_not_retryable)
next
  case (cancelled attempt lastErr err)
  then show ?case by (simp add: Do_loop_cancelled DoWithNotify_loop_cancelled)
next
  case (retry attempt lastErr err)
  then show ?case by (simp add: Do_loop_retry DoWithNotify_loop_retry)
qed

lemma DoWithNotify_loop_no_Printf:
  "filter is_Printf
     (snd (DoWithNotify_loop calc ctxDone config operation notify attempt lastErr)) = []"
proof (induction attempt lastErr
    rule: loop_induct [where config = config and operation = operation and ctxDone = ctxDone])
  case (finished attempt lastErr)
  then show ?case by (simp add: DoWithNotify_loop_done)
next
  case (success attempt lastErr)
  then show ?case by (simp add: DoWithNotify_loop_success)
next
  case (not_retryable attempt lastErr err)
  then show ?case by (simp add: DoWithNotify_loop_not_retryable)
next
  case (cancelled attempt lastErr err)
  then show ?case by (simp add: DoWithNotify_loop_cancelled)
next
  case (retry attempt lastErr err)
  then show ?case by (simp add: DoWithNotify_loop_retry)
qed

lemma DoWithNotify_loop_nil_no_Notify:
  "filter is_Notify
     (snd (DoWithNotify_loop calc ctxDone config operation False attempt lastErr)) = []"
proof (induction attempt lastErr
    rule: loop_induct [where config = config and operation = operation and ctxDone = ctxDone])
  case (finished attempt lastErr)
  then show ?case by (simp add: DoWithNotify_loop_done)
next
  case (success attempt lastErr)
  then show ?case by (simp add: DoWithNotify_loop_success)
next
  case (not_retryable attempt lastErr err)
  then show ?case by (simp add: DoWithNotify_loop_not_retryable)
next
  case (cancelled attempt lastErr err)
  then show ?case by (simp add: DoWithNotify_loop_cancelled)
next
  case (retry attempt lastErr err)
  then show ?case by (simp add: DoWithNotify_loop_retry)
qed

lemma DoWithNotify_loop_invocations:
  "invocations (snd (DoWithNotify_loop calc ctxDone config operation notify attempt lastErr))
     = invocations (snd (Do_loop calc ctxDone config operation attempt lastErr))"
proof (induction attempt lastErr
    rule: loop_induct [where config = config and operation = operation and ctxDone = ctxDone])
  case (finished attempt lastErr)
  then show ?case by (simp add: Do_loop_done DoWithNotify_loop_done)
next
  case (success attempt lastErr)
  then show ?case by (simp add: Do_loop_success DoWithNotify_loop_success)
next
  case (not_retryable attempt lastErr err)
  then show ?case
    by (simp add: Do_loop_not_retryable DoWithNotify_loop_not_retryable invocations_Cons)
next
  case (cancelled attempt lastErr err)
  then show ?case
    by (simp add: Do_loop_cancelled DoWithNotify_loop_cancelled invocations_Cons)
next
  case (retry attempt lastErr err)
  then show ?case
    by (cases notify) (simp_all add: Do_loop_retry DoWithNotify_loop_retry invocations_Cons)
qed

lemma filter_none: "filter P xs = [] \<Longrightarrow> filter (\<lambda>x. \<not> P x) xs = xs"
  by (induction xs) (auto split: if_splits)

subsection \<open>What one run does\<close>

lemma Do_loop_Printf_count:
  "length (filter is_Printf (snd (Do_loop calc ctxDone config operation attempt lastErr)))
     = length (filter is_failed_Invoke
         (snd (Do_loop calc ctxDone config operation attempt lastErr)))"
proof (induction attempt lastErr
    rule: loop_induct [where config = config and operation = operation and ctxDone = ctxDone])
  case (finished attempt lastErr)
  then show ?case by (simp add: Do_loop_done)
next
  case (success attempt lastErr)
  then show ?case by (simp add: Do_loop_success)
next
  case (not_retryable attempt lastErr err)
  then show ?case by (simp add: Do_loop_not_retryable)
next
  case (cancelled attempt lastErr err)
  then show ?case by (simp add: Do_loop_cancelled)
next
  case (retry attempt lastErr err)
  then show ?case by (simp add: Do_loop_retry)
qed

lemma Do_loop_invocations_le:
  "invocations (snd (Do_loop calc ctxDone config operation attempt lastErr))
     \<le> nat (MaxRetries config - int attempt)"
proof (induction attempt lastErr
    rule: loop_induct [where config = config and operation = operation and ctxDone = ctxDone])
  case (finished attempt lastErr)
  then show ?case by (simp add: Do_loop_done invocations_Nil)
next
  case (success attempt lastErr)
  then show ?case by (simp add: Do_loop_success invocations_Cons invocations_Nil)
next
  case (not_retryable attempt lastErr err)
  then show ?case by (simp add: Do_loop_not_retryable invocations_Cons invocations_Nil)
next
  case (cancelled attempt lastErr err)
  then show ?case by (simp add: Do_loop_cancelled invocations_Cons invocations_Nil)
next
  case (retry attempt lastErr err)
  then show ?case by (simp add: Do_loop_retry invocations_Cons)
qed



lemma Do_loop_exhausted:
  assumes retryable: "\<forall>k. IsRetryable (errs k)"
    and uncancelled: "\<forall>k. \<not> ctxDone k"
  shows "int attempt < MaxRetries config \<Longrightarrow>
     fst (Do_loop calc ctxDone config (\<lambda>k. Some (errs k)) attempt lastErr)
       = Some (WrapError ''retries exceeded: '' (errs (nat (MaxRetries config) - 1))) \<and>
     invocations (snd (Do_loop calc ctxDone config (\<lambda>k. Some (errs k)) attempt lastErr))
       = nat (MaxRetries config) - attempt"
proof (induction attempt lastErr
    rule: loop_induct
      [where config = config and operation = "\<lambda>k. Some (errs k)" and ctxDone = ctxDone])
  case (finished attempt lastErr)
  then show ?case by simp
next
  case (success attempt lastErr)
  then show ?case by simp
next
  case (not_retryable attempt lastErr err)
  with retryable show ?case by auto
next
  case (cancelled attempt lastErr err)
  with uncancelled show ?case by simp
next
  case (retry attempt lastErr err)
  show ?case
  proof (cases "int (Suc attempt) < MaxRetries config")
    case True
    with retry show ?thesis
      by (simp add: Do_loop_retry invocations_Cons)
  next
    case False
    with retry(1) have last: "nat (MaxRetries config) - 1 = attempt" by linarith
    from retry(2) have err: "err = errs attempt" by simp
    from False retry last err show ?thesis
      by (simp add: Do_loop_retry Do_loop_done invocations_Cons invocations_Nil
          fmt_Errorf_def)
  qed
qed

lemma IsRetryable_marked: "IsRetryable (RetryableError (Some (ErrorString s)))"
  by (simp add: IsRetryable_def errors_Is_def errors_As_def)

lemma not_IsRetryable_plain: "\<not> IsRetryable (ErrorString s)"
  by (simp add: IsRetryable_def errors_Is_def errors_As_def)

lemma test_config_MaxRetries: "MaxRetries test_config = 2"
  by (simp add: test_config_def)

lemma Do_test_run:
  "Do calc background test_config always_fails =
     (Some (WrapError ''retries exceeded: '' (RetryableError (Some (ErrorString ''always fails'')))),
      [Invoke (Some (RetryableError (Some (ErrorString ''always fails'')))),
       Printf 0 2 (RetryableError (Some (ErrorString ''always fails''))),
       CalcBackoff 0, Wait (calc 0 test_config),
       Invoke (Some (RetryableError (Some (ErrorString ''always fails'')))),
       Printf 1 2 (RetryableError (Some (ErrorString ''always fails''))),
       CalcBackoff 1, Wait (calc 1 test_config)])"
  by (simp add: Do_def Do_loop.simps [of _ _ test_config] test_config_MaxRetries
      always_fails_def background_def IsRetryable_marked fmt_Errorf_def)

lemma DoWithNotify_test_run:
  "DoWithNotify calc background test_config always_fails False =
     (Some (WrapError ''retries exceeded: '' (RetryableError (Some (ErrorString ''always fails'')))),
      [Invoke (Some (RetryableError (Some (ErrorString ''always fails'')))),
       CalcBackoff 0, Wait (calc 0 test_config),
       Invoke (Some (RetryableError (Some (ErrorString ''always fails'')))),
       CalcBackoff 1, Wait (calc 1 test_config)])"
  by (simp add: DoWithNotify_def DoWithNotify_loop.simps [of _ _ test_config]
      test_config_MaxRetries always_fails_def background_def IsRetryable_marked fmt_Errorf_def)


lemma Do_test_run_cancelled_late:
  "fst (Do calc cancelled_in_second_wait test_config always_fails) =
     Some (WrapError ''timed out: '' (RetryableError (Some (ErrorString ''always fails''))))"
  by (simp add: Do_def Do_loop.simps [of _ _ test_config] test_config_MaxRetries
      always_fails_def cancelled_in_second_wait_def IsRetryable_marked fmt_Errorf_def)

subsection \<open>The claims about the executor\<close>



text \<open>
  Claim C3 at the configuration and the operation of \<^verbatim>\<open>TestRetryMaxAttemptsExceeded\<close>
  (\<^verbatim>\<open>MaxRetries\<close> is 2). The test \<^verbatim>\<open>attempt == config.MaxRetries\<close> stands inside a loop that runs
  while \<^verbatim>\<open>attempt < config.MaxRetries\<close>, so it never holds: after the second and last attempt
  both \<^verbatim>\<open>Do\<close> and \<^verbatim>\<open>DoWithNotify\<close> call \<^verbatim>\<open>calculateBackoff\<close> and wait once more before they
  report exhaustion, and a cancellation during that wait turns the result into a timeout.
\<close>

theorem final_attempt_is_followed_by_a_wait:
  "Do initial_wait background test_config always_fails =
     (Some (WrapError ''retries exceeded: '' (RetryableError (Some (ErrorString ''always fails'')))),
      [Invoke (Some (RetryableError (Some (ErrorString ''always fails'')))),
       Printf 0 2 (RetryableError (Some (ErrorString ''always fails''))),
       CalcBackoff 0, Wait 10000000,
       Invoke (Some (RetryableError (Some (ErrorString ''always fails'')))),
       Printf 1 2 (RetryableError (Some (ErrorString ''always fails''))),
       CalcBackoff 1, Wait 10000000])
   \<and> DoWithNotify initial_wait background test_config always_fails False =
     (Some (WrapError ''retries exceeded: '' (RetryableError (Some (ErrorString ''always fails'')))),
      [Invoke (Some (RetryableError (Some (ErrorString ''always fails'')))),
       CalcBackoff 0, Wait 10000000,
       Invoke (Some (RetryableError (Some (ErrorString ''always fails'')))),
       CalcBackoff 1, Wait 10000000])
   \<and> fst (Do initial_wait cancelled_in_second_wait test_config always_fails) =
     Some (WrapError ''timed out: '' (RetryableError (Some (ErrorString ''always fails''))))"
  by (simp add: Do_test_run DoWithNotify_test_run Do_test_run_cancelled_late)
     (simp add: initial_wait_def test_config_def)

text \<open>
  Claim C4, as the code has it. \<^verbatim>\<open>DoWithNotify\<close> writes nothing: its events are calls of the
  operation, calls of \<^verbatim>\<open>calculateBackoff\<close>, calls of the callback and waits, and with a nil
  callback there is no call of it. \<^verbatim>\<open>Do\<close> writes one line to standard output after every
  failed call of the operation.
\<close>

theorem DoWithNotify_writes_nothing:
  "filter is_Printf (snd (DoWithNotify calc ctxDone config operation notify)) = []
   \<and> filter is_Notify (snd (DoWithNotify calc ctxDone config operation False)) = []
   \<and> length (filter is_Printf (snd (Do calc ctxDone config operation)))
       = length (filter is_failed_Invoke (snd (Do calc ctxDone config operation)))"
  by (simp add: Do_def DoWithNotify_def DoWithNotify_loop_no_Printf
      DoWithNotify_loop_nil_no_Notify Do_loop_Printf_count)

text \<open>
  Claim C4, as the specification states it, fails for \<^verbatim>\<open>Do\<close>: in the run of
  \<^verbatim>\<open>TestRetryMaxAttemptsExceeded\<close> it prints two lines.
\<close>

theorem Do_prints_counterexample:
  "filter is_Printf (snd (Do initial_wait background test_config always_fails)) =
     [Printf 0 2 (RetryableError (Some (ErrorString ''always fails''))),
      Printf 1 2 (RetryableError (Some (ErrorString ''always fails'')))]"
  by (simp add: Do_test_run)

text \<open>
  Claim C6. Under a context that is never cancelled, when every call of the operation fails
  with a retryable error, \<^verbatim>\<open>Do\<close> and \<^verbatim>\<open>DoWithNotify\<close> return the exhaustion error around the
  last error after exactly \<^verbatim>\<open>MaxRetries\<close> calls of the operation; and no run, whatever the
  operation and the context, calls the operation more than \<^verbatim>\<open>MaxRetries\<close> times.
\<close>

theorem always_retryable_exhausts:
  assumes "0 < MaxRetries config"
    and "\<forall>k. IsRetryable (errs k)"
    and "\<forall>k. \<not> ctxDone k"
  shows "fst (Do calc ctxDone config (\<lambda>k. Some (errs k)))
           = Some (WrapError ''retries exceeded: '' (errs (nat (MaxRetries config) - 1)))
         \<and> invocations (snd (Do calc ctxDone config (\<lambda>k. Some (errs k))))
           = nat (MaxRetries config)
         \<and> fst (DoWithNotify calc ctxDone config (\<lambda>k. Some (errs k)) notify)
           = Some (WrapError ''retries exceeded: '' (errs (nat (MaxRetries config) - 1)))
         \<and> invocations (snd (DoWithNotify calc ctxDone config (\<lambda>k. Some (errs k)) notify))
           = nat (MaxRetries config)
         \<and> invocations (snd (Do calc' ctxDone' config operation')) \<le> nat (MaxRetries config)
         \<and> invocations (snd (DoWithNotify calc' ctxDone' config operation' notify'))
           \<le> nat (MaxRetries config)"
proof -
  from assms(1) have lt: "int 0 < MaxRetries config" by simp
  have bound: "invocations (snd (Do_loop calc' ctxDone' config operation' 0 None))
      \<le> nat (MaxRetries config)"
    using Do_loop_invocations_le [of calc' ctxDone' config operation' 0 None] by simp
  from Do_loop_exhausted
         [where errs = errs and ctxDone = ctxDone and attempt = 0 and config = config
            and calc = calc and lastErr = None, OF assms(2) assms(3) lt]
       bound
  show ?thesis
    by (simp add: Do_def DoWithNotify_def DoWithNotify_loop_result
        DoWithNotify_loop_invocations)
qed

theorem always_retryable_exhausts_witness:
  "fst (Do initial_wait background test_config always_fails)
     = Some (WrapError ''retries exceeded: '' (RetryableError (Some (ErrorString ''always fails''))))
   \<and> invocations (snd (Do initial_wait background test_config always_fails)) = 2
   \<and> invocations (snd (Do initial_wait cancelled test_config always_fails)) \<le> 2"
proof -
  have h1: "0 < MaxRetries test_config"
    by (simp add: test_config_def)
  have h2: "\<forall>k::nat. IsRetryable (RetryableError (Some (ErrorString ''always fails'')))"
    by (simp add: IsRetryable_def errors_Is_def errors_As_def)
  have h3: "\<forall>k. \<not> background k"
    by (simp add: background_def)
  from always_retryable_exhausts
         [where config = test_config and ctxDone = background and calc = initial_wait
            and errs = "\<lambda>k. RetryableError (Some (ErrorString ''always fails''))"
            and calc' = initial_wait and ctxDone' = cancelled and operation' = always_fails,
          OF h1 h2 h3]
  show ?thesis
    by (simp add: always_fails_def test_config_def)
qed

text \<open>
  Claim C7. When \<^verbatim>\<open>MaxRetries\<close> is at least 1 and the first call of the operation fails with
  an error that is not retryable, \<^verbatim>\<open>Do\<close> and \<^verbatim>\<open>DoWithNotify\<close> return that error wrapped under
  the text \<^verbatim>\<open>not retryable error: \<close> after exactly one call of the operation, whatever
  \<^verbatim>\<open>MaxRetries\<close> is; the returned value differs from every value returned for exhaustion.
\<close>

theorem not_retryable_stops_at_once:
  assumes "0 < MaxRetries config"
    and "operation 0 = Some err"
    and "\<not> IsRetryable err"
  shows "fst (Do calc ctxDone config operation)
           = Some (WrapError ''not retryable error: '' err)
         \<and> invocations (snd (Do calc ctxDone config operation)) = 1
         \<and> fst (DoWithNotify calc ctxDone config operation notify)
           = Some (WrapError ''not retryable error: '' err)
         \<and> invocations (snd (DoWithNotify calc ctxDone config operation notify)) = 1
         \<and> WrapError ''not retryable error: '' err \<noteq> fmt_Errorf ''retries exceeded: '' lastErr"
proof -
  from assms(1) have lt: "int 0 < MaxRetries config" by simp
  have "WrapError ''not retryable error: '' err \<noteq> fmt_Errorf ''retries exceeded: '' lastErr"
    by (cases lastErr) (simp_all add: fmt_Errorf_def)
  with Do_loop_not_retryable
         [where attempt = 0 and config = config and operation = operation and err = err
            and calc = calc and ctxDone = ctxDone and lastErr = None,
          OF lt assms(2) assms(3)]
  show ?thesis
    by (simp add: Do_def DoWithNotify_def DoWithNotify_loop_result
        DoWithNotify_loop_invocations invocations_Cons invocations_Nil)
qed

theorem not_retryable_stops_at_once_witness:
  "fst (Do initial_wait background test_config fails_fatally)
     = Some (WrapError ''not retryable error: '' (ErrorString ''fatal''))
   \<and> invocations (snd (Do initial_wait background test_config fails_fatally)) = 1"
proof -
  have h1: "0 < MaxRetries test_config"
    by (simp add: test_config_def)
  have h2: "fails_fatally 0 = Some (ErrorString ''fatal'')"
    by (simp add: fails_fatally_def)
  have h3: "\<not> IsRetryable (ErrorString ''fatal'')"
    by (simp add: IsRetryable_def errors_Is_def errors_As_def)
  from not_retryable_stops_at_once
         [where config = test_config and operation = fails_fatally
            and err = "ErrorString ''fatal''" and calc = initial_wait
            and ctxDone = background,
          OF h1 h2 h3]
  show ?thesis by simp
qed

text \<open>
  Claim C8. When the first two calls of the operation fail with retryable errors, the first
  wait runs to its end and the context is done during the wait after the second call, \<^verbatim>\<open>Do\<close>
  and \<^verbatim>\<open>DoWithNotify\<close> return the second error wrapped under the text \<^verbatim>\<open>timed out: \<close>, and
  the operation has been called exactly twice.
\<close>

theorem cancelled_in_second_wait_stops:
  assumes "2 \<le> MaxRetries config"
    and "operation 0 = Some e0" and "IsRetryable e0"
    and "operation 1 = Some e1" and "IsRetryable e1"
    and "\<not> ctxDone 0" and "ctxDone 1"
  shows "fst (Do calc ctxDone config operation) = Some (WrapError ''timed out: '' e1)
         \<and> invocations (snd (Do calc ctxDone config operation)) = 2
         \<and> fst (DoWithNotify calc ctxDone config operation notify)
           = Some (WrapError ''timed out: '' e1)
         \<and> invocations (snd (DoWithNotify calc ctxDone config operation notify)) = 2"
proof -
  from assms(1) have lt0: "int 0 < MaxRetries config" and lt1: "int (Suc 0) < MaxRetries config"
    by simp_all
  from assms(4) have op1: "operation (Suc 0) = Some e1" by simp
  from assms(7) have done1: "ctxDone (Suc 0)" by simp
  have first: "Do_loop calc ctxDone config operation 0 None =
      (fst (Do_loop calc ctxDone config operation (Suc 0) (Some e0)),
       [Invoke (Some e0), Printf 0 (MaxRetries config) e0, CalcBackoff 0,
        Wait (calc 0 config)] @
       snd (Do_loop calc ctxDone config operation (Suc 0) (Some e0)))"
    by (rule Do_loop_retry
          [where attempt = 0 and operation = operation and ctxDone = ctxDone,
           OF lt0 assms(2) assms(3) assms(6)])
  have second: "Do_loop calc ctxDone config operation (Suc 0) (Some e0) =
      (Some (WrapError ''timed out: '' e1),
       [Invoke (Some e1), Printf (Suc 0) (MaxRetries config) e1, CalcBackoff (Suc 0),
        Wait (calc (Suc 0) config)])"
    by (rule Do_loop_cancelled
          [where attempt = "Suc 0" and operation = operation and ctxDone = ctxDone,
           OF lt1 op1 assms(5) done1])
  from first second show ?thesis
    by (simp add: Do_def DoWithNotify_def DoWithNotify_loop_result
        DoWithNotify_loop_invocations invocations_Cons invocations_Nil)
qed

theorem cancelled_in_second_wait_stops_witness:
  "fst (Do initial_wait cancelled_in_second_wait (test_config\<lparr>MaxRetries := 5\<rparr>) always_fails)
     = Some (WrapError ''timed out: '' (RetryableError (Some (ErrorString ''always fails''))))
   \<and> invocations
       (snd (Do initial_wait cancelled_in_second_wait (test_config\<lparr>MaxRetries := 5\<rparr>)
          always_fails)) = 2"
proof -
  have h1: "2 \<le> MaxRetries (test_config\<lparr>MaxRetries := 5\<rparr>)"
    by simp
  have h2: "always_fails 0 = Some (RetryableError (Some (ErrorString ''always fails'')))"
    and h4: "always_fails 1 = Some (RetryableError (Some (ErrorString ''always fails'')))"
    by (simp_all add: always_fails_def)
  have h3: "IsRetryable (RetryableError (Some (ErrorString ''always fails'')))"
    by (simp add: IsRetryable_def errors_Is_def errors_As_def)
  have h6: "\<not> cancelled_in_second_wait 0" and h7: "cancelled_in_second_wait 1"
    by (simp_all add: cancelled_in_second_wait_def)
  from cancelled_in_second_wait_stops
         [where config = "test_config\<lparr>MaxRetries := 5\<rparr>" and operation = always_fails
            and ctxDone = cancelled_in_second_wait and calc = initial_wait,
          OF h1 h2 h3 h4 h3 h6 h7]
  show ?thesis by simp
qed

text \<open>
  Claim C10. On the same results of the operation, the same outcomes of the waits and the
  same values of \<^verbatim>\<open>calculateBackoff\<close>, \<^verbatim>\<open>Do\<close> and \<^verbatim>\<open>DoWithNotify\<close> with a nil callback return
  the same error, and the events of \<^verbatim>\<open>DoWithNotify\<close> are those of \<^verbatim>\<open>Do\<close> without the printed
  lines.
\<close>

theorem Do_equals_DoWithNotify_nil:
  "fst (Do calc ctxDone config operation)
     = fst (DoWithNotify calc ctxDone config operation False)
   \<and> snd (DoWithNotify calc ctxDone config operation False)
     = filter (\<lambda>ev. \<not> is_Printf ev) (snd (Do calc ctxDone config operation))"
proof -
  have "filter (\<lambda>ev. \<not> is_Notify ev)
          (snd (DoWithNotify_loop calc ctxDone config operation False 0 None))
        = snd (DoWithNotify_loop calc ctxDone config operation False 0 None)"
    by (rule filter_none) (rule DoWithNotify_loop_nil_no_Notify)
  then show ?thesis
    by (simp add: Do_def DoWithNotify_def DoWithNotify_loop_result DoWithNotify_loop_events)
qed

end
